theory Spec2Isabelle
  imports Main
begin

section \<open>Data model (app/models.py)\<close>

text \<open>
  Dates are day ordinals, times of day and timestamps are counted in microseconds, the
  resolution of Python's \<open>datetime\<close>. \<open>combine\<close> is \<open>datetime.combine\<close> and
  \<open>hours\<close> is \<open>timedelta(hours=h)\<close>.
\<close>

type_synonym date = int
type_synonym time = int
type_synonym datetime = int

definition combine :: "date \<Rightarrow> time \<Rightarrow> datetime" where
  "combine d t = d * 86400000000 + t"

definition hours :: "int \<Rightarrow> int" where
  "hours h = h * 3600000000"

definition minutes :: "int \<Rightarrow> int" where
  "minutes m = m * 60000000"

text \<open>The three readings of the clock a request makes: \<open>date.today()\<close>,
  \<open>datetime.now()\<close> and \<open>datetime.utcnow()\<close>.\<close>

record clock =
  today :: date
  now :: datetime
  utcnow :: datetime

text \<open>\<open>current_user\<close>: the logged-in row of one of the three user tables.\<close>

datatype actor = AdminUser nat | DoctorUser nat | PatientUser nat

fun get_user_type :: "actor \<Rightarrow> string" where
  "get_user_type (AdminUser _) = ''admin''"
| "get_user_type (DoctorUser _) = ''doctor''"
| "get_user_type (PatientUser _) = ''patient''"

fun user_id :: "actor \<Rightarrow> nat" where
  "user_id (AdminUser i) = i"
| "user_id (DoctorUser i) = i"
| "user_id (PatientUser i) = i"

record doctor =
  d_id :: nat
  d_is_active :: bool

record doctor_availability =
  av_id :: nat
  av_doctor_id :: nat
  available_date :: date
  start_time :: time
  end_time :: time
  is_available :: bool
  av_created_at :: datetime

text \<open>\<open>status\<close> is a nullable string column; the routes compare it with string
  literals, so it stays a string here.\<close>

record appointment =
  a_id :: nat
  patient_id :: nat
  doctor_id :: nat
  appointment_date :: date
  appointment_time :: time
  status :: "string option"
  reason :: "string option"
  appointment_type :: string
  priority :: string
  created_at :: datetime
  updated_at :: datetime

record treatment =
  t_id :: nat
  t_appointment_id :: nat
  diagnosis :: string
  prescription :: "string option"
  t_notes :: "string option"
  treatment_date :: datetime
  follow_up_required :: bool
  follow_up_date :: "date option"

text \<open>The tables the routes read and write, rows in insertion order.\<close>

record store =
  doctors :: "doctor list"
  availabilities :: "doctor_availability list"
  appointments :: "appointment list"
  treatments :: "treatment list"

text \<open>
  A form field that the route parses with \<open>strptime\<close>: missing or empty, present but
  not in the expected format (\<open>ValueError\<close>), or parsed.
\<close>

datatype 'a field = Absent | Malformed | Parsed 'a

text \<open>
  What a request answers when it does not go through. The routes flash a message and
  redirect or re-render; each constructor stands for one of these exits:
  \<^item> \<open>LoginRequired\<close>: the role decorator redirects to the login page;
  \<^item> \<open>NotFound\<close>: \<open>get_or_404\<close> / \<open>first_or_404\<close>;
  \<^item> \<open>AccessDenied\<close>: "Access denied";
  \<^item> \<open>InvalidTransition\<close>: "Only ... appointments can be ...";
  \<^item> \<open>TooLateToCancel\<close>: "Cannot cancel appointments less than 2 hours before the
    scheduled time";
  \<^item> \<open>SlotTaken\<close>: "This time slot is already booked";
  \<^item> \<open>NoAvailability\<close>: "Doctor is not available at the selected time";
  \<^item> \<open>MissingDiagnosis\<close>: "Diagnosis is required";
  \<^item> \<open>Overlap\<close>: "Availability slot overlaps with existing slot";
  \<^item> \<open>ServerError\<close>: an exception that no handler of the route catches.
\<close>

datatype error =
    LoginRequired | NotFound | AccessDenied | DoctorInactive | MissingFields
  | InvalidFormat | PastDate | NoAvailability | SlotTaken | InvalidTransition
  | TooLateToCancel | MissingDiagnosis | InvalidRange | Overlap | NoData | ServerError

section \<open>Queries\<close>

text \<open>The next primary key of a table: one more than the largest key in use.\<close>

definition next_id :: "nat list \<Rightarrow> nat" where
  "next_id ids = Suc (fold max ids 0)"

definition get_doctor :: "store \<Rightarrow> nat \<Rightarrow> doctor option" where
  "get_doctor s i = find (\<lambda>d. d_id d = i) (doctors s)"

definition get_appointment :: "store \<Rightarrow> nat \<Rightarrow> appointment option" where
  "get_appointment s i = find (\<lambda>a. a_id a = i) (appointments s)"

text \<open>Writing the attributes of the row with primary key \<open>i\<close> and committing.\<close>

definition update_appointment :: "nat \<Rightarrow> (appointment \<Rightarrow> appointment) \<Rightarrow> store \<Rightarrow> store" where
  "update_appointment i f s =
     s\<lparr>appointments := map (\<lambda>a. if a_id a = i then f a else a) (appointments s)\<rparr>"

text \<open>The availability query of \<open>book_appointment\<close> and \<open>reschedule_appointment\<close>:
  an available slot of the doctor on that date with \<open>start_time <= t < end_time\<close>.\<close>

definition find_open_slot :: "store \<Rightarrow> nat \<Rightarrow> date \<Rightarrow> time \<Rightarrow> doctor_availability option" where
  "find_open_slot s did d t =
     find (\<lambda>v. av_doctor_id v = did \<and> available_date v = d \<and> start_time v \<le> t
                \<and> end_time v > t \<and> is_available v) (availabilities s)"

text \<open>The conflict query of \<open>book_appointment\<close>: a row of that doctor, date and time
  whose status is \<open>'booked'\<close>.\<close>

definition existing_appointment :: "store \<Rightarrow> nat \<Rightarrow> date \<Rightarrow> time \<Rightarrow> appointment option" where
  "existing_appointment s did d t =
     find (\<lambda>a. doctor_id a = did \<and> appointment_date a = d \<and> appointment_time a = t
                \<and> status a = Some ''booked'') (appointments s)"

text \<open>The conflict query of \<open>reschedule_appointment\<close>: the same, with
  \<open>Appointment.id != appointment_id\<close>.\<close>

definition existing_other_appointment ::
  "store \<Rightarrow> nat \<Rightarrow> date \<Rightarrow> time \<Rightarrow> nat \<Rightarrow> appointment option" where
  "existing_other_appointment s did d t aid =
     find (\<lambda>a. doctor_id a = did \<and> appointment_date a = d \<and> appointment_time a = t
                \<and> status a = Some ''booked'' \<and> a_id a \<noteq> aid) (appointments s)"

text \<open>The statuses from which a doctor may complete or cancel.\<close>

definition active_statuses :: "string option list" where
  "active_statuses = [Some ''scheduled'', Some ''confirmed'', Some ''pending'', Some ''booked'']"

section \<open>Patient routes (app/routes/patient.py)\<close>

definition book_appointment ::
  "actor \<Rightarrow> clock \<Rightarrow> nat \<Rightarrow> date field \<Rightarrow> time field \<Rightarrow> string option \<Rightarrow> store
     \<Rightarrow> error + store" where
  "book_appointment u c did ad atm rsn s =
     (case u of
        PatientUser pid \<Rightarrow>
          (case get_doctor s did of
             None \<Rightarrow> Inl NotFound
           | Some d \<Rightarrow>
               if \<not> d_is_active d then Inl DoctorInactive
               else if ad = Absent \<or> atm = Absent then Inl MissingFields
               else (case ad of
                       Parsed date_obj \<Rightarrow>
                         (case atm of
                            Parsed time_obj \<Rightarrow>
                              if date_obj < today c then Inl PastDate
                              else if find_open_slot s did date_obj time_obj = None
                                then Inl NoAvailability
                              else if existing_appointment s did date_obj time_obj \<noteq> None
                                then Inl SlotTaken
                              else Inr (s\<lparr>appointments := appointments s @
                                     [\<lparr>a_id = next_id (map a_id (appointments s)),
                                       patient_id = pid, doctor_id = did,
                                       appointment_date = date_obj,
                                       appointment_time = time_obj,
                                       status = Some ''booked'', reason = rsn,
                                       appointment_type = ''consultation'',
                                       priority = ''routine'',
                                       created_at = utcnow c, updated_at = utcnow c\<rparr>]\<rparr>)
                          | _ \<Rightarrow> Inl InvalidFormat)
                     | _ \<Rightarrow> Inl InvalidFormat))
      | _ \<Rightarrow> Inl LoginRequired)"

definition patient_cancel_appointment :: "actor \<Rightarrow> clock \<Rightarrow> nat \<Rightarrow> store \<Rightarrow> error + store" where
  "patient_cancel_appointment u c aid s =
     (case u of
        PatientUser pid \<Rightarrow>
          (case get_appointment s aid of
             None \<Rightarrow> Inl NotFound
           | Some a \<Rightarrow>
               if patient_id a \<noteq> pid then Inl AccessDenied
               else if status a \<noteq> Some ''booked'' then Inl InvalidTransition
               else if combine (appointment_date a) (appointment_time a) \<le> now c + hours 2
                 then Inl TooLateToCancel
               else Inr (update_appointment aid
                           (\<lambda>a. a\<lparr>status := Some ''cancelled'', updated_at := utcnow c\<rparr>) s))
      | _ \<Rightarrow> Inl LoginRequired)"

definition reschedule_appointment ::
  "actor \<Rightarrow> clock \<Rightarrow> nat \<Rightarrow> date field \<Rightarrow> time field \<Rightarrow> store \<Rightarrow> error + store" where
  "reschedule_appointment u c aid nd nt s =
     (case u of
        PatientUser pid \<Rightarrow>
          (case get_appointment s aid of
             None \<Rightarrow> Inl NotFound
           | Some a \<Rightarrow>
               if patient_id a \<noteq> pid then Inl AccessDenied
               else if status a \<noteq> Some ''booked'' then Inl InvalidTransition
               else if nd = Absent \<or> nt = Absent then Inl MissingFields
               else (case nd of
                       Parsed date_obj \<Rightarrow>
                         (case nt of
                            Parsed time_obj \<Rightarrow>
                              if date_obj < today c then Inl PastDate
                              else if find_open_slot s (doctor_id a) date_obj time_obj = None
                                then Inl NoAvailability
                              else if existing_other_appointment s (doctor_id a) date_obj
                                        time_obj aid \<noteq> None
                                then Inl SlotTaken
                              else Inr (update_appointment aid
                                          (\<lambda>a. a\<lparr>appointment_date := date_obj,
                                                 appointment_time := time_obj,
                                                 updated_at := utcnow c\<rparr>) s)
                          | _ \<Rightarrow> Inl InvalidFormat)
                     | _ \<Rightarrow> Inl InvalidFormat))
      | _ \<Rightarrow> Inl LoginRequired)"

section \<open>Doctor routes (app/routes/doctor.py)\<close>

text \<open>
  The POST of \<open>complete_appointment\<close>. \<open>dg\<close>, \<open>pr\<close>, \<open>nt\<close> are the form's
  \<open>diagnosis\<close>, \<open>prescription\<close> and \<open>notes\<close> (\<open>None\<close> when the field is not sent),
  \<open>fr\<close> is whether \<open>follow_up_required\<close> is in the form, \<open>fd\<close> the
  \<open>follow_up_date\<close> field. The \<open>strptime\<close> of the follow-up date is outside the
  route's \<open>try\<close>, so a malformed date is an uncaught exception; nothing is committed.
\<close>

definition complete_appointment ::
  "actor \<Rightarrow> clock \<Rightarrow> nat \<Rightarrow> string option \<Rightarrow> string option \<Rightarrow> string option \<Rightarrow> bool
     \<Rightarrow> date field \<Rightarrow> store \<Rightarrow> error + store" where
  "complete_appointment u c aid dg pr nt fr fd s =
     (case u of
        DoctorUser did \<Rightarrow>
          (case get_appointment s aid of
             None \<Rightarrow> Inl NotFound
           | Some a \<Rightarrow>
               if doctor_id a \<noteq> did then Inl AccessDenied
               else if status a \<notin> set active_statuses then Inl InvalidTransition
               else (case dg of
                       None \<Rightarrow> Inl MissingDiagnosis
                     | Some dgs \<Rightarrow>
                         if dgs = [] then Inl MissingDiagnosis
                         else if fd = Malformed \<and> fr then Inl ServerError
                         else Inr ((update_appointment aid
                                (\<lambda>a. a\<lparr>status := Some ''completed'', updated_at := utcnow c\<rparr>) s)
                              \<lparr>treatments := treatments s @
                                 [\<lparr>t_id = next_id (map t_id (treatments s)),
                                   t_appointment_id = a_id a,
                                   diagnosis = dgs, prescription = pr, t_notes = nt,
                                   treatment_date = utcnow c,
                                   follow_up_required = fr,
                                   follow_up_date =
                                     (case fd of Parsed d \<Rightarrow> if fr then Some d else None
                                               | _ \<Rightarrow> None)\<rparr>]\<rparr>)))
      | _ \<Rightarrow> Inl LoginRequired)"

definition doctor_cancel_appointment :: "actor \<Rightarrow> clock \<Rightarrow> nat \<Rightarrow> store \<Rightarrow> error + store" where
  "doctor_cancel_appointment u c aid s =
     (case u of
        DoctorUser did \<Rightarrow>
          (case get_appointment s aid of
             None \<Rightarrow> Inl NotFound
           | Some a \<Rightarrow>
               if doctor_id a \<noteq> did then Inl AccessDenied
               else if status a \<notin> set active_statuses then Inl InvalidTransition
               else Inr (update_appointment aid
                           (\<lambda>a. a\<lparr>status := Some ''cancelled'', updated_at := utcnow c\<rparr>) s))
      | _ \<Rightarrow> Inl LoginRequired)"

text \<open>
  \<open>confirm_appointment\<close> looks the row up by id and doctor and sets the status; it
  reads no status. \<open>updated_at\<close> is not assigned by the route: the column's
  \<open>onupdate\<close> refreshes it when the row is written, that is when the status changes.
\<close>

definition confirm_appointment :: "actor \<Rightarrow> clock \<Rightarrow> nat \<Rightarrow> store \<Rightarrow> error + store" where
  "confirm_appointment u c aid s =
     (case u of
        DoctorUser did \<Rightarrow>
          (case find (\<lambda>a. a_id a = aid \<and> doctor_id a = did) (appointments s) of
             None \<Rightarrow> Inl NotFound
           | Some a \<Rightarrow>
               Inr (update_appointment aid
                      (\<lambda>a. if status a = Some ''confirmed'' then a
                           else a\<lparr>status := Some ''confirmed'', updated_at := utcnow c\<rparr>) s))
      | _ \<Rightarrow> Inl LoginRequired)"

text \<open>The overlap query of \<open>add_availability\<close>: an existing slot of the doctor on the
  date that contains the new start, or contains the new end.\<close>

definition overlapping_slot ::
  "store \<Rightarrow> nat \<Rightarrow> date \<Rightarrow> time \<Rightarrow> time \<Rightarrow> doctor_availability option" where
  "overlapping_slot s did d st en =
     find (\<lambda>v. av_doctor_id v = did \<and> available_date v = d \<and>
                ((start_time v \<le> st \<and> end_time v > st) \<or>
                 (start_time v < en \<and> end_time v \<ge> en))) (availabilities s)"

definition add_availability ::
  "actor \<Rightarrow> clock \<Rightarrow> date field \<Rightarrow> time field \<Rightarrow> time field \<Rightarrow> store \<Rightarrow> error + store" where
  "add_availability u c ad st en s =
     (case u of
        DoctorUser did \<Rightarrow>
          if ad = Absent \<or> st = Absent \<or> en = Absent then Inl MissingFields
          else (case (ad, st, en) of
                  (Parsed date_obj, Parsed start_time_obj, Parsed end_time_obj) \<Rightarrow>
                    if start_time_obj \<ge> end_time_obj then Inl InvalidRange
                    else if date_obj < today c then Inl PastDate
                    else if overlapping_slot s did date_obj start_time_obj end_time_obj \<noteq> None
                      then Inl Overlap
                    else Inr (s\<lparr>availabilities := availabilities s @
                           [\<lparr>av_id = next_id (map av_id (availabilities s)),
                             av_doctor_id = did, available_date = date_obj,
                             start_time = start_time_obj, end_time = end_time_obj,
                             is_available = True, av_created_at = utcnow c\<rparr>]\<rparr>)
                | _ \<Rightarrow> Inl InvalidFormat)
      | _ \<Rightarrow> Inl LoginRequired)"

section \<open>Administrator and JSON routes (app/routes/admin.py, instance/app/routes/api.py)\<close>

text \<open>\<open>update_appointment_status\<close>: the status of the JSON body is stored as it is
  (\<open>None\<close> when the key is missing).\<close>

definition update_appointment_status ::
  "actor \<Rightarrow> clock \<Rightarrow> nat \<Rightarrow> string option \<Rightarrow> store \<Rightarrow> error + store" where
  "update_appointment_status u c aid new_status s =
     (case u of
        AdminUser _ \<Rightarrow>
          (case get_appointment s aid of
             None \<Rightarrow> Inl NotFound
           | Some a \<Rightarrow>
               Inr (update_appointment aid
                      (\<lambda>a. if status a = new_status then a
                           else a\<lparr>status := new_status, updated_at := utcnow c\<rparr>) s))
      | _ \<Rightarrow> Inl LoginRequired)"

text \<open>The body of a PUT on \<open>/appointment/<id>\<close>: the value under \<open>'status'\<close> and, when
  the key \<open>'reason'\<close> is present, the value under it. A reason that differs from the
  stored one writes the row, which refreshes \<open>updated_at\<close> (the column's \<open>onupdate\<close>).\<close>

record json_update =
  j_status :: "string option"
  j_reason :: "string option option"

text \<open>The access check that opens \<open>appointment_detail\<close>.\<close>

definition detail_access :: "actor \<Rightarrow> appointment \<Rightarrow> bool" where
  "detail_access u a =
     (case u of
        PatientUser pid \<Rightarrow> patient_id a = pid
      | DoctorUser did \<Rightarrow> doctor_id a = did
      | AdminUser _ \<Rightarrow> True)"

definition appointment_detail_put ::
  "actor \<Rightarrow> clock \<Rightarrow> nat \<Rightarrow> json_update option \<Rightarrow> store \<Rightarrow> error + store" where
  "appointment_detail_put u c aid data s =
     (case get_appointment s aid of
        None \<Rightarrow> Inl NotFound
      | Some a \<Rightarrow>
          if \<not> detail_access u a then Inl AccessDenied
          else (case data of
                  None \<Rightarrow> Inl NoData
                | Some j \<Rightarrow>
                    Inr (update_appointment aid
                      (\<lambda>a. let a1 = (if get_user_type u \<in> {''doctor'', ''admin''}
                                        \<and> j_status j \<in> {Some ''completed'', Some ''cancelled''}
                                        \<and> status a = Some ''booked''
                                      then a\<lparr>status := j_status j, updated_at := utcnow c\<rparr>
                                      else a)
                           in (case j_reason j of
                                 Some r \<Rightarrow> if get_user_type u \<in> {''patient'', ''admin''}
                                             \<and> reason a1 \<noteq> r
                                           then a1\<lparr>reason := r, updated_at := utcnow c\<rparr>
                                           else a1
                               | None \<Rightarrow> a1)) s)))"

definition appointment_detail_delete :: "actor \<Rightarrow> clock \<Rightarrow> nat \<Rightarrow> store \<Rightarrow> error + store" where
  "appointment_detail_delete u c aid s =
     (case get_appointment s aid of
        None \<Rightarrow> Inl NotFound
      | Some a \<Rightarrow>
          if \<not> detail_access u a then Inl AccessDenied
          else if status a = Some ''booked''
            then Inr (update_appointment aid
                        (\<lambda>a. a\<lparr>status := Some ''cancelled'', updated_at := utcnow c\<rparr>) s)
          else Inl InvalidTransition)"

section \<open>Requests\<close>

text \<open>
  One request to one of the routes above, made by a logged-in user at some reading of
  the clock. A request that does not go through commits nothing: the store stays as it
  was.
\<close>

datatype request =
    BookAppointment nat "date field" "time field" "string option"
  | PatientCancel nat
  | Reschedule nat "date field" "time field"
  | Complete nat "string option" "string option" "string option" bool "date field"
  | DoctorCancel nat
  | Confirm nat
  | AddAvailability "date field" "time field" "time field"
  | UpdateStatus nat "string option"
  | DetailPut nat "json_update option"
  | DetailDelete nat

fun handle :: "actor \<Rightarrow> clock \<Rightarrow> request \<Rightarrow> store \<Rightarrow> error + store" where
  "handle u c (BookAppointment did ad atm rsn) s = book_appointment u c did ad atm rsn s"
| "handle u c (PatientCancel aid) s = patient_cancel_appointment u c aid s"
| "handle u c (Reschedule aid nd nt) s = reschedule_appointment u c aid nd nt s"
| "handle u c (Complete aid dg pr nt fr fd) s = complete_appointment u c aid dg pr nt fr fd s"
| "handle u c (DoctorCancel aid) s = doctor_cancel_appointment u c aid s"
| "handle u c (Confirm aid) s = confirm_appointment u c aid s"
| "handle u c (AddAvailability ad st en) s = add_availability u c ad st en s"
| "handle u c (UpdateStatus aid st) s = update_appointment_status u c aid st s"
| "handle u c (DetailPut aid data) s = appointment_detail_put u c aid data s"
| "handle u c (DetailDelete aid) s = appointment_detail_delete u c aid s"

definition serve :: "actor \<times> clock \<times> request \<Rightarrow> store \<Rightarrow> store" where
  "serve r s = (case r of (u, c, q) \<Rightarrow> (case handle u c q s of Inl _ \<Rightarrow> s | Inr s' \<Rightarrow> s'))"

fun serve_all :: "(actor \<times> clock \<times> request) list \<Rightarrow> store \<Rightarrow> store" where
  "serve_all [] s = s"
| "serve_all (r # rs) s = serve_all rs (serve r s)"

text \<open>The requests of the form routes that guard the status they start from: booking,
  the patient's cancel and reschedule, the doctor's cancel and complete, and adding an
  availability slot.\<close>

fun guarded_request :: "request \<Rightarrow> bool" where
  "guarded_request (BookAppointment _ _ _ _) = True"
| "guarded_request (PatientCancel _) = True"
| "guarded_request (Reschedule _ _ _) = True"
| "guarded_request (Complete _ _ _ _ _ _) = True"
| "guarded_request (DoctorCancel _) = True"
| "guarded_request (AddAvailability _ _ _) = True"
| "guarded_request _ = False"

section \<open>Treatments and completed appointments\<close>

text \<open>The number of \<open>treatments\<close> rows whose \<open>appointment_id\<close> is \<open>i\<close>.\<close>

definition treatment_count :: "store \<Rightarrow> nat \<Rightarrow> nat" where
  "treatment_count s i = length (filter (\<lambda>t. t_appointment_id t = i) (treatments s))"

text \<open>
  The one-to-one link between completed appointments and treatments: primary keys of
  \<open>appointments\<close> are distinct, every treatment references an appointment (the foreign
  key), a completed appointment has exactly one treatment and any other has none.
\<close>

definition treatment_inv :: "store \<Rightarrow> bool" where
  "treatment_inv s \<longleftrightarrow>
     distinct (map a_id (appointments s)) \<and>
     list_all (\<lambda>t. t_appointment_id t \<in> set (map a_id (appointments s))) (treatments s) \<and>
     list_all (\<lambda>a. treatment_count s (a_id a) = (if status a = Some ''completed'' then 1 else 0))
       (appointments s)"

section \<open>A small clinic\<close>

text \<open>Doctor 7 is active and has declared the slot 09:00 to 10:00 on day 100; it is
  08:00 on day 99.\<close>

definition clinic :: store where
  "clinic = \<lparr>doctors = [\<lparr>d_id = 7, d_is_active = True\<rparr>],
             availabilities = [\<lparr>av_id = 1, av_doctor_id = 7, available_date = 100,
                                start_time = hours 9, end_time = hours 10,
                                is_available = True, av_created_at = 0\<rparr>],
             appointments = [], treatments = []\<rparr>"

definition morning :: clock where
  "morning = \<lparr>today = 99, now = combine 99 (hours 8), utcnow = combine 99 (hours 8)\<rparr>"

text \<open>An appointment of patient 1 with doctor 7 at 09:00 on day 100, in a given status.\<close>

definition appt :: "nat \<Rightarrow> string option \<Rightarrow> appointment" where
  "appt i st = \<lparr>a_id = i, patient_id = 1, doctor_id = 7, appointment_date = 100,
                appointment_time = hours 9, status = st, reason = None,
                appointment_type = ''consultation'', priority = ''routine'',
                created_at = 0, updated_at = 0\<rparr>"

text \<open>Four requests in a row: two bookings, then the doctor completes the first
  appointment and cancels the second.\<close>

definition day_of_work :: "(actor \<times> clock \<times> request) list" where
  "day_of_work =
     [(PatientUser 1, morning, BookAppointment 7 (Parsed 100) (Parsed (hours 9)) None),
      (PatientUser 2, morning, BookAppointment 7 (Parsed 100) (Parsed (hours 9 + minutes 30)) None),
      (DoctorUser 7, morning, Complete 1 (Some ''flu'') None None False Absent),
      (DoctorUser 7, morning, DoctorCancel 2)]"

section \<open>Supporting lemmas\<close>

lemmas eval_defs = get_doctor_def get_appointment_def update_appointment_def find_open_slot_def
  existing_appointment_def existing_other_appointment_def active_statuses_def overlapping_slot_def
  next_id_def detail_access_def clinic_def morning_def appt_def hours_def minutes_def combine_def

lemma find_SomeD: "find P xs = Some x \<Longrightarrow> x \<in> set xs \<and> P x"
  by (auto simp: find_Some_iff)

lemma get_appointment_SomeD:
  "get_appointment s i = Some a \<Longrightarrow> a \<in> set (appointments s) \<and> a_id a = i"
  by (auto simp: get_appointment_def find_Some_iff)

lemma fold_max_ge: "x \<in> set ids \<Longrightarrow> x \<le> fold max ids (a::nat)"
proof (induction ids arbitrary: a)
  case Nil
  then show ?case by simp
next
  case (Cons y ys)
  have mono: "b \<le> fold max ys b" for b :: nat
    by (induction ys arbitrary: b) (auto intro: order_trans [OF max.cobounded2])
  from Cons show ?case
    by (auto intro: order_trans [OF max.cobounded1 mono])
qed

lemma next_id_fresh: "next_id ids \<notin> set ids"
  using fold_max_ge [of "next_id ids" ids 0] by (auto simp: next_id_def)

section \<open>Booking conflicts\<close>

text \<open>A booking is answered \<open>SlotTaken\<close> only when a row with status \<open>'booked'\<close>
  holds that doctor, date and time; rows in any other status are not seen.\<close>

lemma book_slot_taken_only_booked:
  assumes "book_appointment u c did ad atm rsn s = Inl SlotTaken"
  shows "\<exists>d t b. ad = Parsed d \<and> atm = Parsed t \<and> b \<in> set (appointments s)
           \<and> doctor_id b = did \<and> appointment_date b = d \<and> appointment_time b = t
           \<and> status b = Some ''booked''"
proof -
  from assms obtain d t b where p: "ad = Parsed d" "atm = Parsed t"
    and e: "existing_appointment s did d t = Some b"
    by (auto simp: book_appointment_def
        split: actor.splits option.splits if_splits field.splits)
  from e have "b \<in> set (appointments s) \<and> doctor_id b = did \<and> appointment_date b = d
      \<and> appointment_time b = t \<and> status b = Some ''booked''"
    by (auto simp: existing_appointment_def dest: find_SomeD)
  with p show ?thesis by blast
qed

text \<open>
  Claim C1: a booking on a (doctor, date, time) that a non-cancelled appointment
  occupies fails with \<open>SlotTaken\<close>, so that at most one non-cancelled appointment
  occupies a triple. The conflict query of \<open>book_appointment\<close> looks for the status
  \<open>'booked'\<close> only: once the doctor has confirmed appointment 1, a second patient books
  the same doctor, date and time, and both appointments are live.
\<close>

theorem book_after_confirm_double_books:
  "map (\<lambda>a. (a_id a, doctor_id a, appointment_date a, appointment_time a, status a))
     (appointments (serve_all
        [(PatientUser 1, morning, BookAppointment 7 (Parsed 100) (Parsed (hours 9)) None),
         (DoctorUser 7, morning, Confirm 1),
         (PatientUser 2, morning, BookAppointment 7 (Parsed 100) (Parsed (hours 9)) None)]
        clinic))
   = [(1, 7, 100, hours 9, Some ''confirmed''), (2, 7, 100, hours 9, Some ''booked'')]"
  by (simp add: serve_def book_appointment_def confirm_appointment_def eval_defs)

section \<open>Terminal states\<close>

text \<open>
  Claim C2, as the specification states it: from \<open>completed\<close> or \<open>cancelled\<close> every
  transition attempt, any status update included, fails and leaves the status unchanged.
  The administrator's \<open>update_appointment_status\<close> reads no status: here it takes the
  completed appointment 1 back to \<open>booked\<close>.
\<close>

theorem terminal_status_counterexample:
  "update_appointment_status (AdminUser 1) morning 1 (Some ''booked'')
     (clinic\<lparr>appointments := [appt 1 (Some ''completed'')]\<rparr>)
   = Inr (clinic\<lparr>appointments := [(appt 1 (Some ''booked''))\<lparr>updated_at := utcnow morning\<rparr>]\<rparr>)"
  by (simp add: update_appointment_status_def eval_defs)

text \<open>
  Claim C2, amended: for an appointment whose status is \<open>completed\<close> or \<open>cancelled\<close>,
  the patient's cancel and reschedule and the doctor's cancel and complete, made by the
  owning patient and the assigned doctor, fail with \<open>InvalidTransition\<close>, as does the
  DELETE of \<open>appointment_detail\<close> by a user with access; made by any user, they leave
  the store as it was.
\<close>

theorem terminal_status_guarded:
  assumes "get_appointment s aid = Some a"
    and "status a = Some ''completed'' \<or> status a = Some ''cancelled''"
  shows "patient_cancel_appointment (PatientUser (patient_id a)) c aid s = Inl InvalidTransition
       \<and> reschedule_appointment (PatientUser (patient_id a)) c aid nd nt s = Inl InvalidTransition
       \<and> doctor_cancel_appointment (DoctorUser (doctor_id a)) c aid s = Inl InvalidTransition
       \<and> complete_appointment (DoctorUser (doctor_id a)) c aid dg pr tn fr fd s
           = Inl InvalidTransition
       \<and> (\<forall>u. detail_access u a \<longrightarrow>
              appointment_detail_delete u c aid s = Inl InvalidTransition)
       \<and> (\<forall>u. serve (u, c, PatientCancel aid) s = s
              \<and> serve (u, c, DetailDelete aid) s = s
              \<and> serve (u, c, Reschedule aid nd nt) s = s
              \<and> serve (u, c, DoctorCancel aid) s = s
              \<and> serve (u, c, Complete aid dg pr tn fr fd) s = s)"
  using assms
  by (auto simp: patient_cancel_appointment_def reschedule_appointment_def
        doctor_cancel_appointment_def complete_appointment_def appointment_detail_delete_def
        active_statuses_def serve_def
        split: actor.splits)

theorem terminal_status_guarded_witness:
  "get_appointment (clinic\<lparr>appointments := [appt 1 (Some ''completed'')]\<rparr>) 1
     = Some (appt 1 (Some ''completed''))
   \<and> complete_appointment (DoctorUser 7) morning 1 (Some ''flu'') None None False Absent
       (clinic\<lparr>appointments := [appt 1 (Some ''completed'')]\<rparr>) = Inl InvalidTransition
   \<and> patient_cancel_appointment (PatientUser 1) morning 1
       (clinic\<lparr>appointments := [appt 1 (Some ''completed'')]\<rparr>) = Inl InvalidTransition"
proof -
  have g: "get_appointment (clinic\<lparr>appointments := [appt 1 (Some ''completed'')]\<rparr>) 1
     = Some (appt 1 (Some ''completed''))"
    by (simp add: eval_defs)
  have st: "status (appt 1 (Some ''completed'')) = Some ''completed''
     \<or> status (appt 1 (Some ''completed'')) = Some ''cancelled''"
    by (simp add: appt_def)
  show ?thesis
    using g terminal_status_guarded [OF g st, of morning Absent Absent "Some ''flu''" None None
        False Absent]
    by (simp add: appt_def)
qed

section \<open>Completed appointments and their treatment\<close>

lemma treatment_invD:
  assumes "treatment_inv s"
  shows "distinct (map a_id (appointments s))"
    and "\<And>t. t \<in> set (treatments s) \<Longrightarrow> t_appointment_id t \<in> a_id ` set (appointments s)"
    and "\<And>a. a \<in> set (appointments s) \<Longrightarrow>
           treatment_count s (a_id a) = (if status a = Some ''completed'' then 1 else 0)"
  using assms by (auto simp: treatment_inv_def list_all_iff)

lemma treatment_count_unreferenced:
  assumes "treatment_inv s" and "i \<notin> a_id ` set (appointments s)"
  shows "treatment_count s i = 0"
  using treatment_invD(2) [OF assms(1)] assms(2)
  by (auto simp: treatment_count_def filter_empty_conv)

lemma treatment_inv_update:
  assumes inv: "treatment_inv s"
    and f_id: "\<And>b. a_id (f b) = a_id b"
    and f_st: "\<And>b. b \<in> set (appointments s) \<Longrightarrow> a_id b = aid \<Longrightarrow>
                 (status (f b) = Some ''completed'') = (status b = Some ''completed'')"
  shows "treatment_inv (update_appointment aid f s)"
proof -
  have ids: "map a_id (appointments (update_appointment aid f s)) = map a_id (appointments s)"
    by (simp add: update_appointment_def f_id cong: map_cong)
  have cnt: "treatment_count (update_appointment aid f s) i = treatment_count s i" for i
    by (simp add: treatment_count_def update_appointment_def)
  show ?thesis
    unfolding treatment_inv_def ids cnt
    using treatment_invD [OF inv] f_id f_st
    by (auto simp: list_all_iff update_appointment_def)
qed

lemma treatment_inv_book:
  assumes "treatment_inv s" and "book_appointment u c did ad atm rsn s = Inr s'"
  shows "treatment_inv s'"
proof -
  from assms(2) obtain a where s': "s' = s\<lparr>appointments := appointments s @ [a]\<rparr>"
    and a: "a_id a = next_id (map a_id (appointments s))" "status a = Some ''booked''"
    by (auto simp: book_appointment_def
        split: actor.splits option.splits if_splits field.splits)
  have fresh: "a_id a \<notin> a_id ` set (appointments s)"
    using next_id_fresh [of "map a_id (appointments s)"] a(1) by simp
  have cnt: "treatment_count s' i = treatment_count s i" for i
    by (simp add: treatment_count_def s')
  show ?thesis
    unfolding treatment_inv_def cnt
    using treatment_invD [OF assms(1)] fresh a(2)
      treatment_count_unreferenced [OF assms(1) fresh]
    by (auto simp: s' list_all_iff)
qed

lemma treatment_inv_patient_cancel:
  assumes "treatment_inv s" and "patient_cancel_appointment u c aid s = Inr s'"
  shows "treatment_inv s'"
proof -
  from assms(2) obtain a where g: "get_appointment s aid = Some a"
    and st: "status a = Some ''booked''"
    and s': "s' = update_appointment aid
                   (\<lambda>a. a\<lparr>status := Some ''cancelled'', updated_at := utcnow c\<rparr>) s"
    by (auto simp: patient_cancel_appointment_def
        split: actor.splits option.splits if_splits)
  have a: "a \<in> set (appointments s)" "a_id a = aid"
    using get_appointment_SomeD [OF g] by simp_all
  have "status b \<noteq> Some ''completed''" if "b \<in> set (appointments s)" "a_id b = aid" for b
    using treatment_invD(3) [OF assms(1) that(1)] treatment_invD(3) [OF assms(1) a(1)]
      that(2) a(2) st
    by (auto split: if_splits)
  then show ?thesis
    unfolding s' by (intro treatment_inv_update [OF assms(1)]) auto
qed


lemma same_id_not_completed:
  assumes "treatment_inv s" and "a \<in> set (appointments s)" and "status a \<noteq> Some ''completed''"
    and "b \<in> set (appointments s)" and "a_id b = a_id a"
  shows "status b \<noteq> Some ''completed''"
  using treatment_invD(3) [OF assms(1,2)] treatment_invD(3) [OF assms(1,4)] assms(3,5)
  by (auto split: if_splits)

lemma treatment_inv_doctor_cancel:
  assumes "treatment_inv s" and "doctor_cancel_appointment u c aid s = Inr s'"
  shows "treatment_inv s'"
proof -
  from assms(2) obtain a where g: "get_appointment s aid = Some a"
    and st: "status a \<in> set active_statuses"
    and s': "s' = update_appointment aid
                   (\<lambda>a. a\<lparr>status := Some ''cancelled'', updated_at := utcnow c\<rparr>) s"
    by (auto simp: doctor_cancel_appointment_def
        split: actor.splits option.splits if_splits)
  have a: "a \<in> set (appointments s)" "a_id a = aid"
    using get_appointment_SomeD [OF g] by simp_all
  have nc: "status a \<noteq> Some ''completed''"
    using st by (auto simp: active_statuses_def)
  have "status b \<noteq> Some ''completed''" if "b \<in> set (appointments s)" "a_id b = aid" for b
    using same_id_not_completed [OF assms(1) a(1) nc that(1)] that(2) a(2) by simp
  then show ?thesis
    unfolding s' by (intro treatment_inv_update [OF assms(1)]) auto
qed

lemma treatment_inv_reschedule:
  assumes "treatment_inv s" and "reschedule_appointment u c aid nd nt s = Inr s'"
  shows "treatment_inv s'"
proof -
  from assms(2) obtain d t where
    s': "s' = update_appointment aid
           (\<lambda>a. a\<lparr>appointment_date := d, appointment_time := t, updated_at := utcnow c\<rparr>) s"
    by (auto simp: reschedule_appointment_def
      split: actor.splits option.splits if_splits field.splits)
  show ?thesis
    unfolding s' by (intro treatment_inv_update [OF assms(1)]) auto
qed

lemma treatment_inv_add_availability:
  assumes "treatment_inv s" and "add_availability u c ad st en s = Inr s'"
  shows "treatment_inv s'"
proof -
  from assms(2) obtain v where s': "s' = s\<lparr>availabilities := availabilities s @ [v]\<rparr>"
    by (auto simp: add_availability_def split: actor.splits if_splits field.splits)
  show ?thesis
    using assms(1) by (simp add: s' treatment_inv_def treatment_count_def)
qed

lemma treatment_inv_complete:
  assumes "treatment_inv s" and "complete_appointment u c aid dg pr tn fr fd s = Inr s'"
  shows "treatment_inv s'"
proof -
  from assms(2) obtain a dgs where g: "get_appointment s aid = Some a"
    and st: "status a \<in> set active_statuses"
    and s0: "s' = (update_appointment aid
                   (\<lambda>a. a\<lparr>status := Some ''completed'', updated_at := utcnow c\<rparr>) s)
                  \<lparr>treatments := treatments s @
                     [\<lparr>t_id = next_id (map t_id (treatments s)), t_appointment_id = a_id a,
                       diagnosis = dgs, prescription = pr, t_notes = tn,
                       treatment_date = utcnow c, follow_up_required = fr,
                       follow_up_date = (case fd of Parsed d \<Rightarrow> if fr then Some d else None
                                                  | _ \<Rightarrow> None)\<rparr>]\<rparr>"
    by (auto simp: complete_appointment_def
        split: actor.splits option.splits if_splits)
  have a: "a \<in> set (appointments s)" "a_id a = aid"
    using get_appointment_SomeD [OF g] by simp_all
  define t where "t = \<lparr>t_id = next_id (map t_id (treatments s)), t_appointment_id = a_id a,
                       diagnosis = dgs, prescription = pr, t_notes = tn,
                       treatment_date = utcnow c, follow_up_required = fr,
                       follow_up_date = (case fd of Parsed d \<Rightarrow> if fr then Some d else None
                                                  | _ \<Rightarrow> None)\<rparr>"
  have t: "t_appointment_id t = aid"
    by (simp add: t_def a(2))
  have s': "s' = (update_appointment aid
                   (\<lambda>a. a\<lparr>status := Some ''completed'', updated_at := utcnow c\<rparr>) s)
                  \<lparr>treatments := treatments s @ [t]\<rparr>"
    by (simp add: s0 t_def)
  have nc: "status a \<noteq> Some ''completed''"
    using st by (auto simp: active_statuses_def)
  have zero: "treatment_count s aid = 0"
    using treatment_invD(3) [OF assms(1) a(1)] a(2) nc by simp
  have ids: "map a_id (appointments s') = map a_id (appointments s)"
    by (simp add: s' update_appointment_def cong: map_cong)
  have cnt: "treatment_count s' i = treatment_count s i + (if i = aid then 1 else 0)" for i
    using t by (auto simp: treatment_count_def s' update_appointment_def)
  have d: "distinct (map a_id (appointments s'))"
    using treatment_invD(1) [OF assms(1)] by (simp add: ids)
  have fk: "list_all (\<lambda>t. t_appointment_id t \<in> set (map a_id (appointments s'))) (treatments s')"
    unfolding ids using treatment_invD(2) [OF assms(1)] a t
    by (auto simp: s' list_all_iff update_appointment_def)
  have one: "list_all (\<lambda>a. treatment_count s' (a_id a)
                 = (if status a = Some ''completed'' then 1 else 0)) (appointments s')"
    unfolding cnt using treatment_invD(3) [OF assms(1)] zero
    by (auto simp: s' list_all_iff update_appointment_def)
  from d fk one show ?thesis
    by (simp add: treatment_inv_def)
qed

lemma treatment_inv_handle:
  assumes "treatment_inv s" and "guarded_request q" and "handle u c q s = Inr s'"
  shows "treatment_inv s'"
  using assms
  by (cases q)
    (auto intro: treatment_inv_book treatment_inv_patient_cancel treatment_inv_reschedule
      treatment_inv_complete treatment_inv_doctor_cancel treatment_inv_add_availability)

lemma treatment_inv_serve:
  assumes "treatment_inv s" and "guarded_request (snd (snd r))"
  shows "treatment_inv (serve r s)"
proof (cases r)
  case (fields u c q)
  with assms show ?thesis
    by (auto simp: serve_def split: sum.splits intro: treatment_inv_handle)
qed

text \<open>
  Claim C3, as the specification states it: no operation moves an appointment to
  \<open>completed\<close> without creating its treatment. The PUT of \<open>appointment_detail\<close> lets
  the assigned doctor set a booked appointment to \<open>completed\<close>; no treatment row is
  written.
\<close>

theorem completed_without_treatment_counterexample:
  "appointment_detail_put (DoctorUser 7) morning 1
     (Some \<lparr>j_status = Some ''completed'', j_reason = None\<rparr>)
     (clinic\<lparr>appointments := [appt 1 (Some ''booked'')]\<rparr>)
   = Inr (clinic\<lparr>appointments :=
            [(appt 1 (Some ''completed''))\<lparr>updated_at := utcnow morning\<rparr>],
          treatments := []\<rparr>)"
  by (simp add: appointment_detail_put_def eval_defs)

text \<open>
  Claim C3, amended: along every sequence of bookings, patient cancels and reschedules,
  doctor cancels and completes and added availability slots, starting from a store where
  it holds, each completed appointment has exactly one treatment row referencing it and
  no appointment in another state has one. So \<open>complete_appointment\<close> writes the
  treatment in the step that completes the appointment.
\<close>

theorem treatment_invariant_guarded:
  assumes "treatment_inv s" and "list_all (\<lambda>r. guarded_request (snd (snd r))) rs"
  shows "treatment_inv (serve_all rs s)"
  using assms
proof (induction rs arbitrary: s)
  case Nil
  then show ?case by simp
next
  case (Cons r rs)
  then show ?case by (simp add: treatment_inv_serve)
qed

theorem treatment_invariant_guarded_witness:
  "treatment_inv clinic
   \<and> list_all (\<lambda>r. guarded_request (snd (snd r))) day_of_work
   \<and> treatment_inv (serve_all day_of_work clinic)
   \<and> map status (appointments (serve_all day_of_work clinic))
       = [Some ''completed'', Some ''cancelled'']
   \<and> map t_appointment_id (treatments (serve_all day_of_work clinic)) = [1]"
proof -
  have i: "treatment_inv clinic"
    by (simp add: treatment_inv_def clinic_def)
  have g: "list_all (\<lambda>r. guarded_request (snd (snd r))) day_of_work"
    by (simp add: day_of_work_def)
  have r: "map status (appointments (serve_all day_of_work clinic))
       = [Some ''completed'', Some ''cancelled'']
     \<and> map t_appointment_id (treatments (serve_all day_of_work clinic)) = [1]"
    by (simp add: day_of_work_def serve_def book_appointment_def complete_appointment_def
        doctor_cancel_appointment_def eval_defs)
  from i g r treatment_invariant_guarded [OF i g] show ?thesis by blast
qed

section \<open>Overlapping availability slots\<close>

text \<open>
  With one existing slot \<open>[s1, e1)\<close> and a new interval \<open>[s2, e2)\<close> that overlaps it,
  the overlap query finds nothing exactly when the new interval strictly contains the
  existing one.
\<close>

lemma overlapping_slot_single:
  assumes "s1 < e1" and "s2 < e2" and "s2 < e1" and "s1 < e2"
  shows "overlapping_slot
           (s\<lparr>availabilities := [\<lparr>av_id = i, av_doctor_id = did, available_date = d,
                                    start_time = s1, end_time = e1, is_available = b,
                                    av_created_at = t\<rparr>]\<rparr>) did d s2 e2 = None
         \<longleftrightarrow> s2 < s1 \<and> e1 < e2"
  using assms by (auto simp: overlapping_slot_def)

text \<open>
  Claim C4: adding a slot that shares a point with an existing slot of the doctor on
  that date fails with \<open>Overlap\<close>, whichever interval contains the other. Doctor 7 has
  the slot 09:00 to 10:00 on day 100; the slot 08:00 to 11:00 on the same day contains it
  and is accepted.
\<close>

theorem add_availability_containing_slot_accepted:
  "add_availability (DoctorUser 7) morning (Parsed 100) (Parsed (hours 8)) (Parsed (hours 11))
     clinic
   = Inr (clinic\<lparr>availabilities := availabilities clinic @
            [\<lparr>av_id = 2, av_doctor_id = 7, available_date = 100, start_time = hours 8,
              end_time = hours 11, is_available = True,
              av_created_at = utcnow morning\<rparr>]\<rparr>)"
  by (simp add: add_availability_def eval_defs)

section \<open>Completing an appointment\<close>

text \<open>
  Claim C5, as the specification states it: a complete request with a diagnosis,
  follow-up required and no follow-up date fails with \<open>FollowUpDateRequired\<close>. The
  route has no such check: the request goes through.
\<close>

theorem follow_up_date_counterexample:
  "complete_appointment (DoctorUser 7) morning 1 (Some ''flu'') None None True Absent
     (clinic\<lparr>appointments := [appt 1 (Some ''booked'')]\<rparr>)
   = Inr (clinic\<lparr>appointments :=
             [(appt 1 (Some ''completed''))\<lparr>updated_at := utcnow morning\<rparr>],
           treatments :=
             [\<lparr>t_id = 1, t_appointment_id = 1, diagnosis = ''flu'', prescription = None,
               t_notes = None, treatment_date = utcnow morning, follow_up_required = True,
               follow_up_date = None\<rparr>]\<rparr>)"
  by (simp add: complete_appointment_def eval_defs)

text \<open>
  Claim C5, amended: a complete request by the assigned doctor on an appointment in a
  completable status, with a non-empty diagnosis, follow-up required and no follow-up
  date, succeeds: the appointment becomes \<open>completed\<close> and one treatment row is
  appended with \<open>follow_up_required\<close> set and no \<open>follow_up_date\<close>.
\<close>

theorem complete_follow_up_without_date:
  assumes "get_appointment s aid = Some a"
    and "status a \<in> set active_statuses"
    and "dg \<noteq> []"
  shows "complete_appointment (DoctorUser (doctor_id a)) c aid (Some dg) pr tn True Absent s
         = Inr ((update_appointment aid
                   (\<lambda>a. a\<lparr>status := Some ''completed'', updated_at := utcnow c\<rparr>) s)
                \<lparr>treatments := treatments s @
                   [\<lparr>t_id = next_id (map t_id (treatments s)), t_appointment_id = aid,
                     diagnosis = dg, prescription = pr, t_notes = tn,
                     treatment_date = utcnow c, follow_up_required = True,
                     follow_up_date = None\<rparr>]\<rparr>)"
  using assms get_appointment_SomeD [OF assms(1)]
  by (simp add: complete_appointment_def)

theorem complete_follow_up_without_date_witness:
  "get_appointment (clinic\<lparr>appointments := [appt 1 (Some ''confirmed'')]\<rparr>) 1
     = Some (appt 1 (Some ''confirmed''))
   \<and> status (appt 1 (Some ''confirmed'')) \<in> set active_statuses
   \<and> ''flu'' \<noteq> []
   \<and> (case complete_appointment (DoctorUser 7) morning 1 (Some ''flu'') None None True Absent
              (clinic\<lparr>appointments := [appt 1 (Some ''confirmed'')]\<rparr>) of
         Inl _ \<Rightarrow> False
       | Inr s' \<Rightarrow> map status (appointments s') = [Some ''completed'']
                   \<and> map follow_up_date (treatments s') = [None]
                   \<and> map follow_up_required (treatments s') = [True])"
proof -
  have g: "get_appointment (clinic\<lparr>appointments := [appt 1 (Some ''confirmed'')]\<rparr>) 1
     = Some (appt 1 (Some ''confirmed''))"
    by (simp add: eval_defs)
  have st: "status (appt 1 (Some ''confirmed'')) \<in> set active_statuses"
    by (simp add: appt_def active_statuses_def)
  have dg: "''flu'' \<noteq> []" by simp
  show ?thesis
    using g st complete_follow_up_without_date [OF g st dg, of morning None None]
    by (simp add: appt_def update_appointment_def clinic_def)
qed

text \<open>
  Claim C8: a complete request whose diagnosis is missing or empty fails, whoever makes
  it, and leaves the store as it was (the appointment keeps its status, no treatment row
  is written); when the assigned doctor makes it on an appointment in a completable
  status, the failure is \<open>MissingDiagnosis\<close>.
\<close>

theorem complete_without_diagnosis:
  assumes "dg = None \<or> dg = Some []"
  shows "(\<exists>e. complete_appointment u c aid dg pr tn fr fd s = Inl e)
       \<and> serve (u, c, Complete aid dg pr tn fr fd) s = s
       \<and> (\<forall>a. get_appointment s aid = Some a \<and> status a \<in> set active_statuses \<longrightarrow>
             complete_appointment (DoctorUser (doctor_id a)) c aid dg pr tn fr fd s
               = Inl MissingDiagnosis)"
  using assms
  by (auto simp: complete_appointment_def serve_def split: actor.splits option.splits)

theorem complete_without_diagnosis_witness:
  "(Some [] = None \<or> Some [] = Some ([]::string))
   \<and> complete_appointment (DoctorUser 7) morning 1 (Some []) (Some ''rest'') None False Absent
        (clinic\<lparr>appointments := [appt 1 (Some ''booked'')]\<rparr>) = Inl MissingDiagnosis
   \<and> serve (DoctorUser 7, morning, Complete 1 (Some []) (Some ''rest'') None False Absent)
        (clinic\<lparr>appointments := [appt 1 (Some ''booked'')]\<rparr>)
       = clinic\<lparr>appointments := [appt 1 (Some ''booked'')]\<rparr>"
proof -
  have d: "Some [] = None \<or> Some [] = Some ([]::string)" by simp
  have g: "get_appointment (clinic\<lparr>appointments := [appt 1 (Some ''booked'')]\<rparr>) 1
     = Some (appt 1 (Some ''booked''))"
    by (simp add: eval_defs)
  have st: "status (appt 1 (Some ''booked'')) \<in> set active_statuses"
    by (simp add: appt_def active_statuses_def)
  have did: "doctor_id (appt 1 (Some ''booked'')) = 7" by (simp add: appt_def)
  from complete_without_diagnosis [OF d, of "DoctorUser 7" morning 1 "Some ''rest''" None False
      Absent "clinic\<lparr>appointments := [appt 1 (Some ''booked'')]\<rparr>"]
  show ?thesis using g st did by auto
qed

section \<open>The patient's cancel and reschedule\<close>

text \<open>
  Claim C6, as the specification states it: on a confirmed appointment the owning
  patient's cancel (more than two hours ahead) and reschedule (to a free, available
  time) succeed. Both routes accept the status \<open>'booked'\<close> only; here it is 08:00 on
  the day before the confirmed appointment.
\<close>

theorem confirmed_patient_requests_counterexample:
  "patient_cancel_appointment (PatientUser 1) morning 1
     (clinic\<lparr>appointments := [appt 1 (Some ''confirmed'')]\<rparr>) = Inl InvalidTransition
   \<and> reschedule_appointment (PatientUser 1) morning 1 (Parsed 100) (Parsed (hours 9 + minutes 30))
     (clinic\<lparr>appointments := [appt 1 (Some ''confirmed'')]\<rparr>) = Inl InvalidTransition"
  by (simp add: patient_cancel_appointment_def reschedule_appointment_def eval_defs)

text \<open>
  Claim C6, amended: on an appointment in state \<open>confirmed\<close>, the owning patient's
  cancel and reschedule are both rejected with \<open>InvalidTransition\<close>, whatever the
  time left and whatever the new date and time.
\<close>

theorem confirmed_patient_requests_rejected:
  assumes "get_appointment s aid = Some a" and "status a = Some ''confirmed''"
  shows "patient_cancel_appointment (PatientUser (patient_id a)) c aid s = Inl InvalidTransition
       \<and> reschedule_appointment (PatientUser (patient_id a)) c aid nd nt s
           = Inl InvalidTransition"
  using assms by (simp add: patient_cancel_appointment_def reschedule_appointment_def)

theorem confirmed_patient_requests_rejected_witness:
  "get_appointment (clinic\<lparr>appointments := [appt 1 (Some ''confirmed'')]\<rparr>) 1
     = Some (appt 1 (Some ''confirmed''))
   \<and> status (appt 1 (Some ''confirmed'')) = Some ''confirmed''
   \<and> patient_cancel_appointment (PatientUser 1) morning 1
        (clinic\<lparr>appointments := [appt 1 (Some ''confirmed'')]\<rparr>) = Inl InvalidTransition
   \<and> reschedule_appointment (PatientUser 1) morning 1 (Parsed 100) (Parsed (hours 9))
        (clinic\<lparr>appointments := [appt 1 (Some ''confirmed'')]\<rparr>) = Inl InvalidTransition"
proof -
  have g: "get_appointment (clinic\<lparr>appointments := [appt 1 (Some ''confirmed'')]\<rparr>) 1
     = Some (appt 1 (Some ''confirmed''))"
    by (simp add: eval_defs)
  have st: "status (appt 1 (Some ''confirmed'')) = Some ''confirmed''"
    by (simp add: appt_def)
  show ?thesis
    using g st confirmed_patient_requests_rejected [OF g st, of morning "Parsed 100" "Parsed (hours 9)"]
    by (simp add: appt_def)
qed

text \<open>
  Claim C7, as the specification states it: the owning patient's cancel succeeds exactly
  when more than two hours remain, so it succeeds 2h01m before the scheduled time. The
  patient route accepts the status \<open>'booked'\<close> only: appointment 1 is confirmed and
  scheduled on day 100 at 09:00, that is at microsecond 8672400000000; at 06:59 of that
  day, 2h01m before, the owner's cancel is refused.
\<close>

theorem cancel_window_confirmed_counterexample:
  "patient_cancel_appointment (PatientUser 1) (morning\<lparr>now := 8665140000000\<rparr>) 1
     (clinic\<lparr>appointments := [appt 1 (Some ''confirmed'')]\<rparr>) = Inl InvalidTransition"
  by (simp add: patient_cancel_appointment_def eval_defs)

text \<open>
  Claim C7, amended: for an appointment in state \<open>booked\<close>, the owning patient's cancel
  through the patient route succeeds exactly when the current time plus two hours
  (7200000000 microseconds) is before the scheduled instant, day times 86400000000 plus
  time of day: 2h01m before it succeeds, 1h59m before it fails with \<open>TooLateToCancel\<close>.
  In any other state that cancel is refused with \<open>InvalidTransition\<close> whatever the
  time. The assigned doctor's cancel of an appointment in a cancellable status reads no
  clock and succeeds at any time, one minute before included.
\<close>

theorem cancel_window_booked:
  assumes "get_appointment s aid = Some a"
  shows "(status a = Some ''booked'' \<longrightarrow>
            patient_cancel_appointment (PatientUser (patient_id a)) c aid s
              = (if now c + 7200000000
                      < appointment_date a * 86400000000 + appointment_time a
                 then Inr (update_appointment aid
                             (\<lambda>a. a\<lparr>status := Some ''cancelled'', updated_at := utcnow c\<rparr>) s)
                 else Inl TooLateToCancel))
       \<and> (status a = Some ''booked''
            \<and> now c = appointment_date a * 86400000000 + appointment_time a - 7260000000
          \<longrightarrow> patient_cancel_appointment (PatientUser (patient_id a)) c aid s
              = Inr (update_appointment aid
                       (\<lambda>a. a\<lparr>status := Some ''cancelled'', updated_at := utcnow c\<rparr>) s))
       \<and> (status a = Some ''booked''
            \<and> now c = appointment_date a * 86400000000 + appointment_time a - 7140000000
          \<longrightarrow> patient_cancel_appointment (PatientUser (patient_id a)) c aid s
              = Inl TooLateToCancel)
       \<and> (status a \<noteq> Some ''booked'' \<longrightarrow>
            patient_cancel_appointment (PatientUser (patient_id a)) c aid s
              = Inl InvalidTransition)
       \<and> (status a \<in> set active_statuses \<longrightarrow>
            doctor_cancel_appointment (DoctorUser (doctor_id a)) c aid s
              = Inr (update_appointment aid
                       (\<lambda>a. a\<lparr>status := Some ''cancelled'', updated_at := utcnow c\<rparr>) s))"
  using assms
  by (simp add: patient_cancel_appointment_def doctor_cancel_appointment_def
        combine_def hours_def)

theorem cancel_window_booked_witness:
  "get_appointment (clinic\<lparr>appointments := [appt 1 (Some ''booked'')]\<rparr>) 1
     = Some (appt 1 (Some ''booked''))
   \<and> status (appt 1 (Some ''booked'')) = Some ''booked''
   \<and> status (appt 1 (Some ''booked'')) \<in> set active_statuses
   \<and> appointment_date (appt 1 (Some ''booked'')) * 86400000000
        + appointment_time (appt 1 (Some ''booked'')) = 8672400000000
   \<and> patient_cancel_appointment (PatientUser 1) (morning\<lparr>now := 8665140000000\<rparr>) 1
        (clinic\<lparr>appointments := [appt 1 (Some ''booked'')]\<rparr>)
      = Inr (clinic\<lparr>appointments :=
               [(appt 1 (Some ''cancelled''))\<lparr>updated_at := utcnow morning\<rparr>]\<rparr>)
   \<and> patient_cancel_appointment (PatientUser 1) (morning\<lparr>now := 8665260000000\<rparr>) 1
        (clinic\<lparr>appointments := [appt 1 (Some ''booked'')]\<rparr>) = Inl TooLateToCancel
   \<and> patient_cancel_appointment (PatientUser 1) (morning\<lparr>now := 8586000000000\<rparr>) 1
        (clinic\<lparr>appointments := [appt 1 (Some ''booked'')]\<rparr>)
      = Inr (clinic\<lparr>appointments :=
               [(appt 1 (Some ''cancelled''))\<lparr>updated_at := utcnow morning\<rparr>]\<rparr>)
   \<and> doctor_cancel_appointment (DoctorUser 7) (morning\<lparr>now := 8672340000000\<rparr>) 1
        (clinic\<lparr>appointments := [appt 1 (Some ''booked'')]\<rparr>)
      = Inr (clinic\<lparr>appointments :=
               [(appt 1 (Some ''cancelled''))\<lparr>updated_at := utcnow morning\<rparr>]\<rparr>)"
proof -
  let ?s = "clinic\<lparr>appointments := [appt 1 (Some ''booked'')]\<rparr>"
  let ?s' = "clinic\<lparr>appointments :=
               [(appt 1 (Some ''cancelled''))\<lparr>updated_at := utcnow morning\<rparr>]\<rparr>"
  have g: "get_appointment ?s 1 = Some (appt 1 (Some ''booked''))"
    by (simp add: eval_defs)
  have st: "status (appt 1 (Some ''booked'')) = Some ''booked''"
    by (simp add: appt_def)
  have act: "status (appt 1 (Some ''booked'')) \<in> set active_statuses"
    by (simp add: appt_def active_statuses_def)
  have at: "appointment_date (appt 1 (Some ''booked'')) * 86400000000
        + appointment_time (appt 1 (Some ''booked'')) = 8672400000000"
    by (simp add: appt_def hours_def)
  have a: "patient_cancel_appointment (PatientUser 1) (morning\<lparr>now := 8665140000000\<rparr>) 1 ?s
      = Inr ?s'"
    using cancel_window_booked [OF g, of "morning\<lparr>now := 8665140000000\<rparr>"]
    by (simp add: eval_defs)
  have b: "patient_cancel_appointment (PatientUser 1) (morning\<lparr>now := 8665260000000\<rparr>) 1 ?s
      = Inl TooLateToCancel"
    using cancel_window_booked [OF g, of "morning\<lparr>now := 8665260000000\<rparr>"]
    by (simp add: eval_defs)
  have e: "patient_cancel_appointment (PatientUser 1) (morning\<lparr>now := 8586000000000\<rparr>) 1 ?s
      = Inr ?s'"
    using cancel_window_booked [OF g, of "morning\<lparr>now := 8586000000000\<rparr>"]
    by (simp add: eval_defs)
  have d: "doctor_cancel_appointment (DoctorUser 7) (morning\<lparr>now := 8672340000000\<rparr>) 1 ?s
      = Inr ?s'"
    using cancel_window_booked [OF g, of "morning\<lparr>now := 8672340000000\<rparr>"]
    by (simp add: eval_defs)
  from g st act at a b e d show ?thesis by blast
qed

text \<open>
  Claim C9: rescheduling an appointment to its own current date and time never fails
  with \<open>SlotTaken\<close> on account of its own row: when no other row with status
  \<open>'booked'\<close> occupies that doctor, date and time, the answer is not \<open>SlotTaken\<close>,
  and when the other guards hold (owner, status, date, availability) the request
  succeeds.
\<close>

theorem reschedule_no_self_conflict:
  assumes "get_appointment s aid = Some a"
    and "\<forall>b\<in>set (appointments s). a_id b \<noteq> aid \<longrightarrow>
           \<not> (doctor_id b = doctor_id a \<and> appointment_date b = appointment_date a
              \<and> appointment_time b = appointment_time a \<and> status b = Some ''booked'')"
  shows "reschedule_appointment u c aid (Parsed (appointment_date a))
           (Parsed (appointment_time a)) s \<noteq> Inl SlotTaken
       \<and> (status a = Some ''booked'' \<and> today c \<le> appointment_date a
            \<and> find_open_slot s (doctor_id a) (appointment_date a) (appointment_time a) \<noteq> None
          \<longrightarrow> reschedule_appointment (PatientUser (patient_id a)) c aid
                 (Parsed (appointment_date a)) (Parsed (appointment_time a)) s
               = Inr (update_appointment aid
                        (\<lambda>b. b\<lparr>appointment_date := appointment_date a,
                               appointment_time := appointment_time a,
                               updated_at := utcnow c\<rparr>) s))"
proof -
  have none: "existing_other_appointment s (doctor_id a) (appointment_date a)
                (appointment_time a) aid = None"
    using assms(2) by (auto simp: existing_other_appointment_def find_None_iff)
  show ?thesis
    using assms(1) none
    by (auto simp: reschedule_appointment_def split: actor.splits)
qed

theorem reschedule_no_self_conflict_witness:
  "reschedule_appointment (PatientUser 1) morning 1 (Parsed 100) (Parsed (hours 9))
     (clinic\<lparr>appointments := [appt 1 (Some ''booked''), appt 2 (Some ''cancelled'')]\<rparr>)
   = Inr (clinic\<lparr>appointments :=
            [(appt 1 (Some ''booked''))\<lparr>updated_at := utcnow morning\<rparr>,
             appt 2 (Some ''cancelled'')]\<rparr>)"
proof -
  let ?s = "clinic\<lparr>appointments := [appt 1 (Some ''booked''), appt 2 (Some ''cancelled'')]\<rparr>"
  have g: "get_appointment ?s 1 = Some (appt 1 (Some ''booked''))"
    by (simp add: eval_defs)
  have o: "\<forall>b\<in>set (appointments ?s). a_id b \<noteq> 1 \<longrightarrow>
           \<not> (doctor_id b = doctor_id (appt 1 (Some ''booked''))
              \<and> appointment_date b = appointment_date (appt 1 (Some ''booked''))
              \<and> appointment_time b = appointment_time (appt 1 (Some ''booked''))
              \<and> status b = Some ''booked'')"
    by (simp add: eval_defs)
  have slot: "find_open_slot ?s 7 100 (hours 9) \<noteq> None"
    by (simp add: eval_defs)
  show ?thesis
    using reschedule_no_self_conflict [OF g o, of "PatientUser 1" morning] slot
    by (simp add: appt_def morning_def update_appointment_def clinic_def)
qed

lemma reschedule_result:
  assumes "reschedule_appointment u c aid nd nt s = Inr s'"
  shows "\<exists>d t. s' = update_appointment aid
           (\<lambda>a. a\<lparr>appointment_date := d, appointment_time := t, updated_at := utcnow c\<rparr>) s"
  using assms
  by (auto simp: reschedule_appointment_def
      split: actor.splits option.splits if_splits field.splits)

text \<open>
  Claim C10: a successful reschedule leaves the doctors, the availability slots and the
  treatments as they were, keeps every appointment row with another id as it was, and
  keeps the id, patient, doctor, status, reason, type, priority and creation time of the
  rescheduled row: only its date, time and \<open>updated_at\<close> can differ.
\<close>

theorem reschedule_frame:
  assumes "reschedule_appointment u c aid nd nt s = Inr s'"
  shows "doctors s' = doctors s \<and> availabilities s' = availabilities s
       \<and> treatments s' = treatments s
       \<and> length (appointments s') = length (appointments s)
       \<and> (\<forall>i < length (appointments s).
            (a_id (appointments s ! i) \<noteq> aid \<longrightarrow> appointments s' ! i = appointments s ! i)
          \<and> a_id (appointments s' ! i) = a_id (appointments s ! i)
          \<and> patient_id (appointments s' ! i) = patient_id (appointments s ! i)
          \<and> doctor_id (appointments s' ! i) = doctor_id (appointments s ! i)
          \<and> status (appointments s' ! i) = status (appointments s ! i)
          \<and> reason (appointments s' ! i) = reason (appointments s ! i)
          \<and> appointment_type (appointments s' ! i) = appointment_type (appointments s ! i)
          \<and> priority (appointments s' ! i) = priority (appointments s ! i)
          \<and> created_at (appointments s' ! i) = created_at (appointments s ! i))"
proof -
  from reschedule_result [OF assms] obtain d t where
    s': "s' = update_appointment aid
           (\<lambda>a. a\<lparr>appointment_date := d, appointment_time := t, updated_at := utcnow c\<rparr>) s"
    by blast
  show ?thesis
    unfolding s' by (simp add: update_appointment_def)
qed

theorem reschedule_frame_witness:
  "reschedule_appointment (PatientUser 1) morning 1 (Parsed 100) (Parsed (hours 9 + minutes 30))
     (clinic\<lparr>appointments := [appt 1 (Some ''booked''), appt 2 (Some ''confirmed'')]\<rparr>)
   = Inr (clinic\<lparr>appointments :=
            [(appt 1 (Some ''booked''))\<lparr>appointment_time := hours 9 + minutes 30,
                                        updated_at := utcnow morning\<rparr>,
             appt 2 (Some ''confirmed'')]\<rparr>)
   \<and> status (appointments (clinic\<lparr>appointments :=
            [(appt 1 (Some ''booked''))\<lparr>appointment_time := hours 9 + minutes 30,
                                        updated_at := utcnow morning\<rparr>,
             appt 2 (Some ''confirmed'')]\<rparr>) ! 0) = Some ''booked''"
proof -
  let ?s = "clinic\<lparr>appointments := [appt 1 (Some ''booked''), appt 2 (Some ''confirmed'')]\<rparr>"
  let ?s' = "clinic\<lparr>appointments :=
            [(appt 1 (Some ''booked''))\<lparr>appointment_time := hours 9 + minutes 30,
                                        updated_at := utcnow morning\<rparr>,
             appt 2 (Some ''confirmed'')]\<rparr>"
  have r: "reschedule_appointment (PatientUser 1) morning 1 (Parsed 100)
             (Parsed (hours 9 + minutes 30)) ?s = Inr ?s'"
    by (simp add: reschedule_appointment_def eval_defs)
  from reschedule_frame [OF r] have "\<forall>i < length (appointments ?s).
      status (appointments ?s' ! i) = status (appointments ?s ! i)"
    by blast
  then have "status (appointments ?s' ! 0) = status (appointments ?s ! 0)"
    by simp
  then have "status (appointments ?s' ! 0) = Some ''booked''"
    by (simp add: appt_def)
  with r show ?thesis by blast
qed

end
